theory Spec2Isabelle
  imports Complex_Main
begin

section \<open>The Sr-to-La substitution cell of atomic_models_with_ase.ipynb\<close>

text \<open>
  The cell under study (atomic_models_with_ase.ipynb, lines 294-300):
  \<^verbatim>\<open>
  sto_lto = repeated_srtio3.copy()
  mask = sto_lto.symbols == "Sr"
  mask = mask * (sto_lto.positions[:, 1] < 7.5)
  sto_lto.numbers[mask] = 57
  \<close>
  An \<open>Atoms\<close> object owns its arrays: the atomic numbers (one integer per atom), the
  positions (one row of three coordinates per atom) and the cell (three cell vectors).
  Objects live in a store and variables hold references to them, so that a mutation
  through one name is seen through every name that refers to the same object.
  Coordinates are modelled as real numbers (the values of finite floats; no NaN).
\<close>

type_synonym vec3 = "real \<times> real \<times> real"

record atoms =
  numbers :: "int list"
  positions :: "vec3 list"
  cell :: "vec3 list"

type_synonym addr = nat

datatype val = Ref addr | BoolArr "bool list"

datatype error =
    NameError string
  | AttributeError string
  | ValueError
  | IndexError

record kernel =
  vars :: "string \<rightharpoonup> val"
  heap :: "atoms list"

text \<open>The entry of the library's table of atomic numbers for each symbol the notebooks name.\<close>

fun atomic_numbers :: "string \<Rightarrow> int option" where
  "atomic_numbers s =
     (if s = ''C'' then Some 6 else if s = ''N'' then Some 7 else if s = ''O'' then Some 8
      else if s = ''F'' then Some 9 else if s = ''Ti'' then Some 22 else if s = ''Cu'' then Some 29
      else if s = ''Sr'' then Some 38 else if s = ''La'' then Some 57 else None)"

text \<open>Reading a name that refers to an \<open>Atoms\<close> object; \<open>attr\<close> is the attribute about
  to be read, which an array does not have. A reference always points into the store; the
  last case only keeps the function total.\<close>

definition get_atoms :: "kernel \<Rightarrow> string \<Rightarrow> string \<Rightarrow> error + (addr \<times> atoms)" where
  "get_atoms k x attr =
     (case vars k x of
        None \<Rightarrow> Inl (NameError x)
      | Some (BoolArr _) \<Rightarrow> Inl (AttributeError attr)
      | Some (Ref a) \<Rightarrow> if a < length (heap k) then Inr (a, heap k ! a) else Inl (NameError x))"

text \<open>\<open>tgt = src.copy()\<close>: a new object with copies of the arrays of the old one, stored
  at a fresh address; an array is copied by value.\<close>

definition copy_stmt :: "string \<Rightarrow> string \<Rightarrow> kernel \<Rightarrow> error + kernel" where
  "copy_stmt tgt src k =
     (case vars k src of
        None \<Rightarrow> Inl (NameError src)
      | Some (BoolArr m) \<Rightarrow> Inr (k\<lparr>vars := (vars k)(tgt \<mapsto> BoolArr m)\<rparr>)
      | Some (Ref a) \<Rightarrow>
          if a < length (heap k)
          then Inr (k\<lparr>vars := (vars k)(tgt \<mapsto> Ref (length (heap k))),
                      heap := heap k @ [heap k ! a]\<rparr>)
          else Inl (NameError src))"

text \<open>\<open>tgt = x.symbols == el\<close>: the symbol is turned into its atomic number and compared
  with the number of every atom; a symbol that is no element compares unequal as a whole,
  which leaves a single boolean (an array of one truth value here).\<close>

definition symbols_eq_stmt :: "string \<Rightarrow> string \<Rightarrow> string \<Rightarrow> kernel \<Rightarrow> error + kernel" where
  "symbols_eq_stmt tgt x el k =
     (case get_atoms k x ''symbols'' of
        Inl e \<Rightarrow> Inl e
      | Inr (a, ob) \<Rightarrow>
          (case atomic_numbers el of
             None \<Rightarrow> Inr (k\<lparr>vars := (vars k)(tgt \<mapsto> BoolArr [False])\<rparr>)
           | Some z \<Rightarrow> Inr (k\<lparr>vars := (vars k)(tgt \<mapsto> BoolArr (map (\<lambda>n. n = z) (numbers ob)))\<rparr>)))"

text \<open>The product of two boolean arrays is their elementwise conjunction; an array of
  length one is broadcast, any other difference of lengths is an error.\<close>

definition mul_mask :: "bool list \<Rightarrow> bool list \<Rightarrow> error + bool list" where
  "mul_mask a b =
     (if length a = length b then Inr (map2 (\<and>) a b)
      else if length a = 1 then Inr (map (\<lambda>y. hd a \<and> y) b)
      else if length b = 1 then Inr (map (\<lambda>x. x \<and> hd b) a)
      else Inl ValueError)"

text \<open>\<open>tgt = m * (x.positions[:, 1] < c)\<close>: column 1 of the positions is the y coordinate.\<close>

definition mask_y_stmt :: "string \<Rightarrow> string \<Rightarrow> string \<Rightarrow> real \<Rightarrow> kernel \<Rightarrow> error + kernel" where
  "mask_y_stmt tgt m x c k =
     (case vars k m of
        None \<Rightarrow> Inl (NameError m)
      | Some (Ref _) \<Rightarrow>
          (case get_atoms k x ''positions'' of Inl e \<Rightarrow> Inl e | Inr _ \<Rightarrow> Inl ValueError)
      | Some (BoolArr bs) \<Rightarrow>
          (case get_atoms k x ''positions'' of
             Inl e \<Rightarrow> Inl e
           | Inr (a, ob) \<Rightarrow>
               (case mul_mask bs (map (\<lambda>p. fst (snd p) < c) (positions ob)) of
                  Inl e \<Rightarrow> Inl e
                | Inr bs' \<Rightarrow> Inr (k\<lparr>vars := (vars k)(tgt \<mapsto> BoolArr bs')\<rparr>))))"

text \<open>\<open>x.numbers[m] = v\<close>: the entries of the numbers array of the object itself (not of a
  copy) are overwritten where the mask is true; the mask must be as long as the array.\<close>

definition set_numbers_stmt :: "string \<Rightarrow> string \<Rightarrow> int \<Rightarrow> kernel \<Rightarrow> error + kernel" where
  "set_numbers_stmt x m v k =
     (case get_atoms k x ''numbers'' of
        Inl e \<Rightarrow> Inl e
      | Inr (a, ob) \<Rightarrow>
          (case vars k m of
             None \<Rightarrow> Inl (NameError m)
           | Some (Ref _) \<Rightarrow> Inl IndexError
           | Some (BoolArr bs) \<Rightarrow>
               if length bs = length (numbers ob)
               then Inr (k\<lparr>heap := (heap k)[a := ob\<lparr>numbers :=
                         map2 (\<lambda>b n. if b then v else n) bs (numbers ob)\<rparr>]\<rparr>)
               else Inl IndexError))"

definition then_do :: "error + 'a \<Rightarrow> ('a \<Rightarrow> error + 'b) \<Rightarrow> error + 'b" where
  "then_do r f = (case r of Inl e \<Rightarrow> Inl e | Inr x \<Rightarrow> f x)"

text \<open>The four statements of the cell, in order; the first error ends the cell.\<close>

definition sr_to_la_cell :: "kernel \<Rightarrow> error + kernel" where
  "sr_to_la_cell k =
     then_do (copy_stmt ''sto_lto'' ''repeated_srtio3'' k) (\<lambda>k1.
     then_do (symbols_eq_stmt ''mask'' ''sto_lto'' ''Sr'' k1) (\<lambda>k2.
     then_do (mask_y_stmt ''mask'' ''mask'' ''sto_lto'' 7.5 k2) (\<lambda>k3.
     set_numbers_stmt ''sto_lto'' ''mask'' 57 k3)))"

text \<open>A kernel in which \<open>repeated_srtio3\<close> is a small structure: Sr, Ti, Sr, Sr, with the
  first Sr below y = 7.5, the second above and the third at y = 7.5 exactly.\<close>

definition demo_atoms :: atoms where
  "demo_atoms = \<lparr>numbers = [38, 22, 38, 38],
                 positions = [(0, 1, 0), (2, 2, 0), (0, 8, 0), (2, 7.5, 1)],
                 cell = [(4, 0, 0), (0, 16, 0), (0, 0, 4)]\<rparr>"

definition demo_kernel :: kernel where
  "demo_kernel = \<lparr>vars = [''repeated_srtio3'' \<mapsto> Ref 0], heap = [demo_atoms]\<rparr>"

section \<open>The notebooks as programs\<close>

text \<open>
  The repository is four notebooks. The code of a notebook is the sequence of its code
  cells, each a sequence of Python statements; markdown cells and comments are no code.
  The syntax below is the part of Python's grammar needed to write the cells down, with
  the compound statements and expressions (definitions, loops, branches, handlers) that a
  cell could contain. A float literal keeps its source text.
\<close>

datatype expr =
    Name string
  | IntLit int
  | FloatLit string
  | StrLit string
  | BoolLit bool
  | Omitted
  | Attr expr string
  | Call expr "expr list"
  | Kw string expr
  | Starred expr
  | TupleE "expr list"
  | ListE "expr list"
  | DictE "expr list"
  | KeyValue expr expr
  | Subscript expr expr
  | Slice expr expr expr
  | BinOp expr string expr
  | Compare expr string expr
  | UnaryOp string expr
  | JoinedStr "expr list"
  | FormattedValue expr string
  | Lambda "string list" expr
  | IfExp expr expr expr
  | ListComp expr expr expr

datatype stmt =
    Magic string
  | Help expr
  | Import string
  | ImportAs string string
  | ImportFrom string "string list"
  | Assign expr expr
  | AugAssign expr string expr
  | ExprStmt expr
  | FunctionDef string "string list" "stmt list"
  | ClassDef string "expr list" "stmt list"
  | For expr expr "stmt list"
  | While expr "stmt list"
  | If expr "stmt list" "stmt list"
  | Try "stmt list" "stmt list"
  | Raise expr
  | With expr "stmt list"

type_synonym notebook = "stmt list list"

definition stmts :: "notebook \<Rightarrow> stmt list" where
  "stmts nb = concat nb"

text \<open>atomic_models_with_ase.ipynb. One list per code cell, in the order of the file; a cell that
  holds only comments is empty.\<close>

definition atomic_models_with_ase :: notebook where
  "atomic_models_with_ase =
     [[Magic ''matplotlib inline'',
       Import ''abtem'',
       Import ''ase'',
       ImportAs ''matplotlib.pyplot'' ''plt'',
       ImportAs ''numpy'' ''np'',
       ImportFrom ''ase.visualize'' [''view'']],
      [Assign (Name ''atoms'')
         (Call (Attr (Name ''ase'') ''Atoms'')
            [StrLit ''N2'',
             Kw ''positions''
               (ListE
                  [TupleE [FloatLit ''0.0'', FloatLit ''0.0'', FloatLit ''0.0''],
                   TupleE [FloatLit ''1.0'', FloatLit ''0.0'', FloatLit ''0.0'']]),
             Kw ''cell'' (ListE [IntLit 6, IntLit 6, IntLit 6])])],
      [ExprStmt (Attr (Name ''atoms'') ''positions'')],
      [ExprStmt (Attr (Name ''atoms'') ''numbers'')],
      [ExprStmt (Attr (Name ''atoms'') ''cell'')],
      [Assign (Subscript (Attr (Name ''atoms'') ''numbers'') (IntLit 0)) (IntLit 9)],
      [AugAssign (Name ''atoms'') ''+''
         (Call (Attr (Name ''ase'') ''Atoms'')
            [StrLit ''N'',
             Kw ''positions'' (ListE [TupleE [FloatLit ''2.0'', IntLit 0, IntLit 0]])]),
       ExprStmt (Name ''atoms'')],
      [ExprStmt (Call (Attr (Name ''abtem'') ''show_atoms'') [Name ''atoms''])],
      [ImportFrom ''ase.visualize'' [''view''], ExprStmt (Call (Name ''view'') [Name ''atoms''])],
      [Assign (Name ''srtio3'')
         (Call (Attr (Attr (Name ''ase'') ''io'') ''read'') [StrLit ''srtio3.cif'']),
       ExprStmt
         (Call (Attr (Name ''abtem'') ''show_atoms'')
            [Name ''srtio3'', Kw ''legend'' (BoolLit True)])],
      [ExprStmt (Call (Name ''view'') [Name ''srtio3''])],
      [ImportFrom ''ase.build'' [''surface''],
       Assign (Name ''srtio3_110'')
         (Call (Name ''surface'')
            [Name ''srtio3'',
             Kw ''indices'' (TupleE [IntLit 1, IntLit 1, IntLit 0]),
             Kw ''layers'' (IntLit 2),
             Kw ''periodic'' (BoolLit True)]),
       ExprStmt
         (Call (Attr (Name ''abtem'') ''show_atoms'')
            [Name ''srtio3_110'', Kw ''plane'' (StrLit ''xy''), Kw ''legend'' (BoolLit True)])],
      [Assign (Name ''repeated_srtio3'') (Call (Attr (Name ''srtio3_110'') ''copy'') []),
       Assign (Name ''repeated_srtio3'')
         (BinOp (Name ''srtio3_110'') ''*'' (TupleE [IntLit 3, IntLit 4, IntLit 10])),
       ExprStmt
         (Call (Attr (Name ''abtem'') ''show_atoms'')
            [Name ''repeated_srtio3'', Kw ''legend'' (BoolLit True)])],
      [ExprStmt
         (Call (Attr (Name ''abtem'') ''show_atoms'')
            [Name ''repeated_srtio3'', Kw ''plane'' (StrLit ''xz'')])],
      [Assign (Name ''sto_lto'') (Call (Attr (Name ''repeated_srtio3'') ''copy'') []),
       Assign (Name ''mask'')
         (Compare (Attr (Name ''sto_lto'') ''symbols'') ''=='' (StrLit ''Sr'')),
       Assign (Name ''mask'')
         (BinOp (Name ''mask'') ''*''
            (Compare
               (Subscript (Attr (Name ''sto_lto'') ''positions'')
                  (TupleE [Slice Omitted Omitted Omitted, IntLit 1]))
               ''<''
               (FloatLit ''7.5''))),
       Assign (Subscript (Attr (Name ''sto_lto'') ''numbers'') (Name ''mask'')) (IntLit 57)],
      [ExprStmt
         (Call (Attr (Name ''sto_lto'') ''center'')
            [Kw ''axis'' (IntLit 2), Kw ''vacuum'' (IntLit 5)])],
      [Assign (TupleE [Name ''fig'', TupleE [Name ''ax1'', Name ''ax2'']])
         (Call (Attr (Name ''plt'') ''subplots'')
            [IntLit 1, IntLit 2, Kw ''figsize'' (TupleE [IntLit 8, IntLit 4])]),
       ExprStmt
         (Call (Attr (Name ''abtem'') ''show_atoms'')
            [Name ''sto_lto'', Kw ''ax'' (Name ''ax1'')]),
       ExprStmt
         (Call (Attr (Name ''abtem'') ''show_atoms'')
            [Name ''sto_lto'', Kw ''ax'' (Name ''ax2''), Kw ''plane'' (StrLit ''yz'')])],
      [ImportFrom ''ase.io'' [''write''],
       ExprStmt (Call (Name ''write'') [StrLit ''sto_lto.cif'', Name ''sto_lto''])],
      [Assign (Name ''graphene'')
         (Call (Attr (Attr (Name ''ase'') ''build'') ''graphene'')
            [Kw ''vacuum'' (IntLit 2), Kw ''a'' (FloatLit ''2.46'')]),
       ExprStmt (Call (Attr (Name ''abtem'') ''show_atoms'') [Name ''graphene''])],
      [Assign (TupleE [Name ''orthogonal_graphene'', Name ''transform''])
         (Call (Attr (Name ''abtem'') ''orthogonalize_cell'')
            [Name ''graphene'', Kw ''return_transform'' (BoolLit True)]),
       ExprStmt (Call (Attr (Name ''abtem'') ''show_atoms'') [Name ''orthogonal_graphene''])]]"

text \<open>image_simulation_with_abtem.ipynb.\<close>

definition image_simulation_with_abtem :: notebook where
  "image_simulation_with_abtem =
     [[Magic ''matplotlib ipympl'',
       Import ''abtem'',
       Import ''ase'',
       ImportAs ''matplotlib.pyplot'' ''plt'',
       ImportAs ''numpy'' ''np'',
       ExprStmt
         (Call (Attr (Attr (Name ''abtem'') ''config'') ''set'')
            [DictE [KeyValue (StrLit ''visualize.cmap'') (StrLit ''viridis'')]]),
       ExprStmt
         (Call (Attr (Attr (Name ''abtem'') ''config'') ''set'')
            [DictE [KeyValue (StrLit ''visualize.continuous_update'') (BoolLit True)]]),
       ExprStmt
         (Call (Attr (Attr (Name ''abtem'') ''config'') ''set'')
            [DictE [KeyValue (StrLit ''visualize.autoscale'') (BoolLit True)]]),
       ExprStmt
         (Call (Attr (Attr (Name ''abtem'') ''config'') ''set'')
            [DictE [KeyValue (StrLit ''device'') (StrLit ''cpu'')]]),
       ExprStmt
         (Call (Attr (Attr (Name ''abtem'') ''config'') ''set'')
            [DictE [KeyValue (StrLit ''fft'') (StrLit ''fftw'')]])],
      [ExprStmt (Attr (Name ''abtem'') ''__version__'')],
      [Assign (Name ''atoms'')
         (Call (Attr (Attr (Name ''ase'') ''io'') ''read'') [StrLit ''sto_lto.cif'']),
       Assign (TupleE [Name ''fig'', TupleE [Name ''ax1'', Name ''ax2'']])
         (Call (Attr (Name ''plt'') ''subplots'') [IntLit 1, IntLit 2]),
       ExprStmt
         (Call (Attr (Name ''abtem'') ''show_atoms'')
            [Name ''atoms'',
             Kw ''ax'' (Name ''ax1''),
             Kw ''plane'' (StrLit ''xy''),
             Kw ''title'' (StrLit ''Beam view''),
             Kw ''legend'' (BoolLit True)]),
       ExprStmt
         (Call (Attr (Name ''abtem'') ''show_atoms'')
            [Name ''atoms'',
             Kw ''ax'' (Name ''ax2''),
             Kw ''plane'' (StrLit ''yz''),
             Kw ''title'' (StrLit ''Side view'')])],
      [Assign (Name ''potential'')
         (Call (Attr (Name ''abtem'') ''Potential'')
            [Name ''atoms'',
             Kw ''sampling'' (FloatLit ''0.05''),
             Kw ''slice_thickness'' (IntLit 2)])],
      [ExprStmt (Call (Name ''len'') [Name ''potential''])],
      [Assign (Name ''potential_array'') (Call (Attr (Name ''potential'') ''build'') [])],
      [ExprStmt (Attr (Name ''potential_array'') ''array'')],
      [ExprStmt (Call (Attr (Name ''potential_array'') ''compute'') [])],
      [ExprStmt (Attr (Name ''potential_array'') ''array'')],
      [ExprStmt (Call (Attr (Name ''potential_array'') ''show'') [Kw ''cbar'' (BoolLit True)])],
      [],
      [ExprStmt
         (Call (Attr (Call (Attr (Name ''potential_array'') ''to_images'') []) ''show'')
            [Kw ''interact'' (BoolLit True), Kw ''cbar'' (BoolLit True)])],
      [Help (Attr (Name ''abtem'') ''Probe'')],
      [Assign (Name ''probe'')
         (Call (Attr (Name ''abtem'') ''Probe'')
            [Kw ''energy'' (FloatLit ''150e3''),
             Kw ''defocus'' (IntLit 50),
             Kw ''semiangle_cutoff'' (IntLit 20),
             Kw ''Cs'' (FloatLit ''0.'')])],
      [ExprStmt (Call (Attr (Attr (Name ''probe'') ''grid'') ''match'') [Name ''potential''])],
      [Assign (Name ''probe_waves'') (Call (Attr (Name ''probe'') ''build'') []),
       ExprStmt (Attr (Name ''probe_waves'') ''array'')],
      [ExprStmt (Call (Attr (Name ''probe_waves'') ''compute'') [])],
      [ExprStmt
         (Call (Attr (Call (Attr (Name ''probe_waves'') ''intensity'') []) ''show'')
            [Kw ''title'' (StrLit ''Probe intensity'')])],
      [ExprStmt
         (Call (Attr (Call (Attr (Name ''probe_waves'') ''diffraction_patterns'') []) ''show'')
            [Kw ''title'' (StrLit ''Reciprocal space probe intensity''),
             Kw ''units'' (StrLit ''mrad'')])],
      [Assign (Name ''focal_series'')
         (Call (Attr (Name ''np'') ''linspace'') [IntLit 0, IntLit 200, IntLit 5]),
       Assign (Name ''focal_series_probe'')
         (Call (Attr (Name ''abtem'') ''Probe'')
            [Kw ''energy'' (FloatLit ''200e3''),
             Kw ''defocus'' (Name ''focal_series''),
             Kw ''semiangle_cutoff'' (IntLit 20),
             Kw ''extent'' (IntLit 10),
             Kw ''sampling'' (FloatLit ''0.05'')])],
      [ExprStmt
         (Call
            (Attr
               (Call (Attr (Call (Attr (Name ''focal_series_probe'') ''build'') []) ''compute'')
                  [])
               ''show'')
            [Kw ''interact'' (BoolLit True)])],
      [ExprStmt
         (Call (Attr (Call (Attr (Name ''focal_series_probe'') ''build'') []) ''show'')
            [Kw ''explode'' (BoolLit True), Kw ''figsize'' (TupleE [IntLit 10, IntLit 3])])],
      [Assign (Name ''position'')
         (ListE
            [TupleE [IntLit 8, IntLit 8],
             TupleE [IntLit 6, IntLit 8],
             TupleE [IntLit 4, IntLit 8]]),
       Assign (Name ''exit_wave'')
         (Call (Attr (Name ''probe'') ''multislice'')
            [Name ''potential'', Kw ''scan'' (Name ''position'')])],
      [ExprStmt (Call (Attr (Name ''exit_wave'') ''compute'') [])],
      [Assign (Name ''exit_wave_image'') (Call (Attr (Name ''exit_wave'') ''intensity'') []),
       ExprStmt
         (Call (Attr (Name ''exit_wave_image'') ''show'') [Kw ''interact'' (BoolLit True)])],
      [Assign (Name ''exit_wave_diffraction'')
         (Call (Attr (Name ''exit_wave'') ''diffraction_patterns'')
            [Kw ''max_angle'' (IntLit 100)]),
       ExprStmt
         (Call (Attr (Name ''exit_wave_diffraction'') ''show'')
            [Kw ''interact'' (BoolLit True),
             Kw ''cbar'' (BoolLit True),
             Kw ''units'' (StrLit ''mrad'')])],
      [Assign (Name ''scan'')
         (Call (Attr (Name ''abtem'') ''GridScan'')
            [Kw ''start'' (TupleE [IntLit 0, IntLit 0]),
             Kw ''end'' (TupleE [BinOp (IntLit 1) ''/'' (IntLit 3), IntLit 1]),
             Kw ''sampling'' (Attr (Attr (Name ''probe'') ''ctf'') ''nyquist_sampling''),
             Kw ''fractional'' (BoolLit True),
             Kw ''potential'' (Name ''potential'')])],
      [Assign (TupleE [Name ''fig'', Name ''ax''])
         (Call (Attr (Name ''abtem'') ''show_atoms'') [Name ''atoms'']),
       ExprStmt
         (Call (Attr (Name ''scan'') ''add_to_plot'')
            [Name ''ax'', Kw ''color'' (StrLit ''k'')])],
      [Assign (Name ''bright'')
         (Call (Attr (Name ''abtem'') ''AnnularDetector'')
            [Kw ''inner'' (IntLit 0), Kw ''outer'' (IntLit 20)]),
       Assign (Name ''maadf'')
         (Call (Attr (Name ''abtem'') ''AnnularDetector'')
            [Kw ''inner'' (IntLit 50), Kw ''outer'' (IntLit 120)]),
       Assign (Name ''haadf'')
         (Call (Attr (Name ''abtem'') ''AnnularDetector'')
            [Kw ''inner'' (IntLit 100), Kw ''outer'' (IntLit 180)]),
       Assign (Name ''detectors'') (ListE [Name ''bright'', Name ''maadf'', Name ''haadf''])],
      [ExprStmt
         (Call (Name ''print'')
            [JoinedStr
               [StrLit ''alpha_max = '',
                FormattedValue (Call (Name ''min'') [Attr (Name ''probe'') ''cutoff_angles''])
                  ''.1f'',
                StrLit '' mrad'']])],
      [Assign (Name ''bright_region'')
         (Call (Attr (Name ''bright'') ''get_detector_region'') [Name ''probe'']),
       Assign (Name ''maadf_region'')
         (Call (Attr (Name ''maadf'') ''get_detector_region'') [Name ''probe'']),
       Assign (Name ''haadf_region'')
         (Call (Attr (Name ''haadf'') ''get_detector_region'') [Name ''probe''])],
      [Assign (Name ''stacked_regions'')
         (Call (Attr (Name ''abtem'') ''stack'')
            [TupleE [Name ''bright_region'', Name ''maadf_region'', Name ''haadf_region''],
             TupleE [StrLit ''bright'', StrLit ''MAADF'', StrLit ''HAADF'']]),
       Assign (Name ''visualization'')
         (Call (Attr (Name ''stacked_regions'') ''show'')
            [Kw ''explode'' (BoolLit True),
             Kw ''units'' (StrLit ''mrad''),
             Kw ''figsize'' (TupleE [IntLit 8, IntLit 4])])],
      [Assign (Name ''scanned_measurements'')
         (Call (Attr (Name ''probe'') ''scan'')
            [Kw ''scan'' (Name ''scan''),
             Kw ''detectors'' (Name ''detectors''),
             Kw ''potential'' (Name ''potential'')]),
       ExprStmt (Call (Attr (Name ''scanned_measurements'') ''compute'') [])],
      [Assign (Name ''stacked_measurements'')
         (Call (Attr (Name ''abtem'') ''stack'')
            [Name ''scanned_measurements'',
             TupleE [StrLit ''BF'', StrLit ''MAADF'', StrLit ''HAADF'']]),
       ExprStmt
         (Call (Attr (Name ''stacked_measurements'') ''show'') [Kw ''explode'' (BoolLit True)])],
      [Assign (Name ''interpolated_measurements'')
         (Call (Attr (Name ''stacked_measurements'') ''interpolate'') [FloatLit ''0.1'']),
       ExprStmt
         (Call (Attr (Name ''interpolated_measurements'') ''show'')
            [Kw ''explode'' (BoolLit True)])],
      [Assign (Name ''blurred_measurements'')
         (Call (Attr (Name ''interpolated_measurements'') ''gaussian_filter'')
            [FloatLit ''0.4'']),
       ExprStmt
         (Call (Attr (Name ''blurred_measurements'') ''show'') [Kw ''explode'' (BoolLit True)])],
      [Assign (Name ''tiled_measurements'')
         (Call (Attr (Name ''blurred_measurements'') ''tile'') [TupleE [IntLit 8, IntLit 3]])],
      [Assign (Name ''noisy_measurements'')
         (Call (Attr (Name ''tiled_measurements'') ''poisson_noise'')
            [Kw ''dose_per_area'' (FloatLit ''1e4''), Kw ''seed'' (IntLit 100)])],
      [ExprStmt
         (Call (Attr (Name ''noisy_measurements'') ''show'')
            [Kw ''explode'' (BoolLit True), Kw ''figsize'' (TupleE [IntLit 8, IntLit 4])])]]"

text \<open>image_simulation_with_abtem_supplement.ipynb. The units string of \<open>center_of_mass\<close> ends in
  the two bytes of a non-ASCII letter.\<close>

definition image_simulation_with_abtem_supplement :: notebook where
  "image_simulation_with_abtem_supplement =
     [[Magic ''matplotlib ipympl'',
       Import ''abtem'',
       Import ''ase'',
       ImportAs ''matplotlib.pyplot'' ''plt'',
       ImportAs ''numpy'' ''np'',
       ExprStmt
         (Call (Attr (Attr (Name ''abtem'') ''config'') ''set'')
            [DictE [KeyValue (StrLit ''visualize.cmap'') (StrLit ''viridis'')]]),
       ExprStmt
         (Call (Attr (Attr (Name ''abtem'') ''config'') ''set'')
            [DictE [KeyValue (StrLit ''visualize.continuous_update'') (BoolLit True)]]),
       ExprStmt
         (Call (Attr (Attr (Name ''abtem'') ''config'') ''set'')
            [DictE [KeyValue (StrLit ''visualize.autoscale'') (BoolLit True)]]),
       ExprStmt
         (Call (Attr (Attr (Name ''abtem'') ''config'') ''set'')
            [DictE [KeyValue (StrLit ''device'') (StrLit ''cpu'')]]),
       ExprStmt
         (Call (Attr (Attr (Name ''abtem'') ''config'') ''set'')
            [DictE [KeyValue (StrLit ''fft'') (StrLit ''fftw'')]])],
      [Assign (Name ''atoms'')
         (Call (Attr (Attr (Name ''ase'') ''io'') ''read'') [StrLit ''sto_lto.cif'']),
       ExprStmt (Call (Attr (Name ''abtem'') ''show_atoms'') [Name ''atoms''])],
      [Assign (Name ''plane_wave'')
         (Call (Attr (Name ''abtem'') ''PlaneWave'') [Kw ''energy'' (FloatLit ''150e3'')])],
      [Assign (Name ''potential'')
         (Call (Attr (Name ''abtem'') ''Potential'')
            [Name ''atoms'',
             Kw ''sampling'' (FloatLit ''0.05''),
             Kw ''slice_thickness'' (IntLit 2),
             Kw ''exit_planes'' (IntLit 1)])],
      [Assign (Name ''exit_wave'')
         (Call
            (Attr (Call (Attr (Name ''plane_wave'') ''multislice'') [Name ''potential''])
               ''compute'')
            [])],
      [ExprStmt (Call (Attr (Name ''exit_wave'') ''show'') [Kw ''interact'' (BoolLit True)])],
      [Assign (Name ''Cs'')
         (BinOp (UnaryOp ''-'' (FloatLit ''100e-6'')) ''*'' (FloatLit ''1e10'')),
       Assign (Name ''focal_series'')
         (Call (Attr (Name ''np'') ''linspace'') [IntLit 0, IntLit 200, IntLit 5]),
       Assign (Name ''ctf'')
         (Call (Attr (Name ''abtem'') ''CTF'')
            [Kw ''Cs'' (Name ''Cs''),
             Kw ''energy'' (FloatLit ''150e3''),
             Kw ''defocus'' (Name ''focal_series'')])],
      [],
      [ExprStmt (Call (Attr (Call (Attr (Name ''ctf'') ''profiles'') []) ''show'') [])],
      [Assign (Attr (Name ''ctf'') ''semiangle_cutoff'')
         (Attr (Name ''ctf'') ''crossover_angle'')],
      [Assign (Name ''image'')
         (Call
            (Attr (Call (Attr (Name ''exit_wave'') ''apply_ctf'') [Name ''ctf'']) ''intensity'')
            [])],
      [ExprStmt (Call (Attr (Name ''image'') ''show'') [Kw ''interact'' (BoolLit True)])],
      [Assign (Name ''noisy_image'')
         (Call
            (Attr (Call (Attr (Name ''image'') ''tile'') [TupleE [IntLit 2, IntLit 2]])
               ''poisson_noise'')
            [FloatLit ''1e4'']),
       ExprStmt
         (Call (Attr (Name ''noisy_image'') ''show'')
            [Kw ''title'' (StrLit ''HRTEM image''), Kw ''interact'' (BoolLit True)])],
      [Assign (Name ''atoms'')
         (Call (Attr (Attr (Name ''ase'') ''io'') ''read'') [StrLit ''sto_lto.cif'']),
       Assign (Name ''potential'')
         (Call (Attr (Name ''abtem'') ''Potential'')
            [Name ''atoms'',
             Kw ''sampling'' (FloatLit ''0.05''),
             Kw ''slice_thickness'' (IntLit 2)]),
       Assign (Name ''probe'')
         (Call (Attr (Name ''abtem'') ''Probe'')
            [Kw ''energy'' (FloatLit ''150e3''),
             Kw ''defocus'' (IntLit 50),
             Kw ''semiangle_cutoff'' (IntLit 20)]),
       Assign (Name ''scan'')
         (Call (Attr (Name ''abtem'') ''GridScan'')
            [Kw ''start'' (TupleE [IntLit 0, IntLit 0]),
             Kw ''end'' (TupleE [BinOp (IntLit 1) ''/'' (IntLit 3), IntLit 1]),
             Kw ''sampling'' (Attr (Attr (Name ''probe'') ''ctf'') ''nyquist_sampling''),
             Kw ''fractional'' (BoolLit True),
             Kw ''potential'' (Name ''potential'')])],
      [Assign (Name ''detector'')
         (Call (Attr (Name ''abtem'') ''PixelatedDetector'') [Kw ''max_angle'' (IntLit 100)])],
      [Assign (Name ''measurement_4d'')
         (Call (Attr (Name ''probe'') ''scan'')
            [Kw ''scan'' (Name ''scan''),
             Kw ''potential'' (Name ''potential''),
             Kw ''detectors'' (Name ''detector'')]),
       ExprStmt (Attr (Name ''measurement_4d'') ''array'')],
      [ExprStmt
         (Call (Attr (Name ''measurement_4d'') ''to_zarr'') [StrLit ''measurement_4d.zarr''])],
      [Assign (Name ''measurement_4d'')
         (Call (Attr (Name ''abtem'') ''from_zarr'') [StrLit ''measurement_4d.zarr'']),
       ExprStmt (Attr (Name ''measurement_4d'') ''array'')],
      [ExprStmt
         (Call (Attr (Name ''measurement_4d'') ''show'') [Kw ''interact'' (BoolLit True)])],
      [ExprStmt
         (Call (Attr (Subscript (Name ''measurement_4d'') (TupleE [IntLit 1, IntLit 1])) ''show'')
            [])],
      [Assign (Name ''polar_binned'')
         (Call (Attr (Name ''measurement_4d'') ''polar_binning'')
            [Kw ''nbins_radial'' (IntLit 100), Kw ''nbins_azimuthal'' (IntLit 1)]),
       ExprStmt (Attr (Name ''polar_binned'') ''array'')],
      [Assign (Name ''binned_images'')
         (Call
            (Attr
               (Call
                  (Attr
                     (Call
                        (Attr (Call (Attr (Name ''polar_binned'') ''to_image_ensemble'') [])
                           ''compute'')
                        [])
                     ''interpolate'')
                  [FloatLit ''0.1''])
               ''tile'')
            [TupleE [IntLit 3, IntLit 1]]),
       ExprStmt (Call (Attr (Name ''binned_images'') ''show'') [Kw ''interact'' (BoolLit True)])],
      [Assign (Name ''center_of_mass'')
         (Call (Attr (Name ''measurement_4d'') ''center_of_mass'')
            [Kw ''units'' (StrLit (''1/'' @ [CHR 0xC3] @ [CHR 0x85]))]),
       ExprStmt (Attr (Name ''center_of_mass'') ''array'')],
      [Assign (Name ''interpolated_center_of_mass'')
         (Call
            (Attr (Call (Attr (Name ''center_of_mass'') ''interpolate'') [FloatLit ''0.1''])
               ''tile'')
            [TupleE [IntLit 3, IntLit 1]]),
       ExprStmt
         (Call (Attr (Call (Attr (Name ''interpolated_center_of_mass'') ''imag'') []) ''show'')
            [Kw ''title'' (StrLit ''COM real part''), Kw ''cbar'' (BoolLit True)])],
      [ExprStmt
         (Call (Attr (Name ''interpolated_center_of_mass'') ''show'')
            [Kw ''cbar'' (BoolLit True),
             Kw ''cmap'' (StrLit ''hsluv''),
             Kw ''title'' (StrLit ''COM domain coloring'')])],
      [Assign (Name ''integrated_gradient'')
         (Call (Attr (Name ''interpolated_center_of_mass'') ''integrate_gradient'') []),
       ExprStmt (Call (Attr (Name ''integrated_gradient'') ''show'') [])],
      [ExprStmt (Name ''atoms'')],
      [Assign (Name ''sigmas'')
         (DictE
            [KeyValue (StrLit ''O'') (FloatLit ''.1''),
             KeyValue (StrLit ''Sr'') (FloatLit ''.1''),
             KeyValue (StrLit ''La'') (FloatLit ''.1''),
             KeyValue (StrLit ''Ti'') (FloatLit ''.1'')]),
       Assign (Name ''frozen_phonons'')
         (Call (Attr (Name ''abtem'') ''FrozenPhonons'')
            [BinOp (Name ''atoms'') ''*'' (TupleE [IntLit 1, IntLit 1, IntLit 4]),
             Kw ''sigmas'' (Name ''sigmas''),
             Kw ''num_configs'' (IntLit 8)])],
      [Assign (Name ''iterator'') (Call (Name ''iter'') [Name ''frozen_phonons''])],
      [Assign (Name ''config'') (Call (Name ''next'') [Name ''iterator'']),
       ExprStmt
         (Call (Attr (Name ''abtem'') ''show_atoms'')
            [Name ''config'', Kw ''scale'' (FloatLit ''.5'')])],
      [Assign (Name ''frozen_phonon_potential'')
         (Call (Attr (Name ''abtem'') ''Potential'')
            [Name ''frozen_phonons'',
             Kw ''sampling'' (FloatLit ''0.05''),
             Kw ''slice_thickness'' (IntLit 2)])],
      [ExprStmt
         (Call
            (Attr
               (Call
                  (Attr
                     (Call
                        (Attr (Call (Attr (Name ''frozen_phonon_potential'') ''build'') [])
                           ''project'')
                        [])
                     ''compute'')
                  [])
               ''show'')
            [Kw ''interact'' (BoolLit True)])],
      [Assign (Name ''exit_waves'')
         (Call (Attr (Name ''probe'') ''multislice'')
            [Kw ''potential'' (Name ''frozen_phonon_potential'')]),
       ExprStmt (Attr (Name ''exit_waves'') ''array'')],
      [ExprStmt (Call (Attr (Name ''exit_waves'') ''compute'') [])],
      [ExprStmt (Attr (Call (Attr (Name ''exit_waves'') ''diffraction_patterns'') []) ''shape'')],
      [ExprStmt
         (Call (Attr (Call (Attr (Name ''exit_waves'') ''diffraction_patterns'') []) ''show'')
            [Kw ''interact'' (BoolLit True)])],
      [ExprStmt (Attr (Name ''probe'') ''cutoff_angles'')],
      [Assign (Name ''mean_diffraction_pattern'')
         (Call (Attr (Call (Attr (Name ''exit_waves'') ''diffraction_patterns'') []) ''mean'')
            [IntLit 0])],
      [],
      [ExprStmt
         (Call (Attr (Name ''mean_diffraction_pattern'') ''show'')
            [Kw ''power'' (FloatLit ''0.25''), Kw ''units'' (StrLit ''mrad'')])],
      [ImportFrom ''ase.io'' [''read''],
       Assign (Name ''cluster'') (Call (Name ''read'') [StrLit ''cluster_on_carbon.cfg'']),
       ExprStmt
         (Call (Name ''print'')
            [Call
               (Attr
                  (StrLit
                     (''Number of atoms: {} '' @ [CHR 0x0A] @ ''Cell: {:.2f} x {:.2f} x {:.2f}''))
                  ''format'')
               [Call (Name ''len'') [Name ''cluster''],
                Starred
                  (Call (Attr (Name ''np'') ''diag'') [Attr (Name ''cluster'') ''cell''])]])],
      [ExprStmt
         (Call (Attr (Name ''abtem'') ''show_atoms'')
            [Name ''cluster'',
             Kw ''plane'' (StrLit ''xz''),
             Kw ''title'' (StrLit ''Side view'')])],
      [Assign (Name ''cluster_potential'')
         (Call (Attr (Name ''abtem'') ''Potential'')
            [Name ''cluster'', Kw ''gpts'' (IntLit 768), Kw ''slice_thickness'' (IntLit 2)]),
       Assign (Name ''S'')
         (Call (Attr (Name ''abtem'') ''SMatrix'')
            [Kw ''potential'' (Name ''cluster_potential''),
             Kw ''interpolation'' (IntLit 6),
             Kw ''energy'' (FloatLit ''150e3''),
             Kw ''semiangle_cutoff'' (IntLit 25)]),
       ExprStmt (Attr (Name ''S'') ''cutoff_angles'')],
      [ExprStmt
         (Call
            (Attr (Call (Attr (Name ''S'') ''dummy_probes'') [Kw ''plane'' (StrLit ''exit'')])
               ''show'')
            [])],
      [Assign (Name ''ctf'')
         (Call (Attr (Name ''abtem'') ''CTF'') [Kw ''defocus'' (ListE [IntLit 0, IntLit 70])]),
       ExprStmt
         (Call
            (Attr
               (Call (Attr (Name ''S'') ''dummy_probes'')
                  [Kw ''plane'' (StrLit ''exit''), Kw ''ctf'' (Name ''ctf'')])
               ''show'')
            [Kw ''interact'' (BoolLit True)])],
      [ExprStmt (Attr (Call (Attr (Name ''S'') ''build'') []) ''array'')],
      [Assign (Name ''plane_waves'') (Attr (Call (Attr (Name ''S'') ''build'') []) ''waves'')],
      [ExprStmt
         (Call
            (Attr
               (Call
                  (Attr
                     (Call
                        (Attr
                           (Subscript (Name ''plane_waves'')
                              (Slice Omitted (IntLit 50) (IntLit 10)))
                           ''complex_images'')
                        [])
                     ''compute'')
                  [])
               ''show'')
            [Kw ''interact'' (BoolLit True),
             Kw ''cbar'' (BoolLit True),
             Kw ''cmap'' (StrLit ''hsv'')])],
      [Assign (Name ''maadf_detector'')
         (Call (Attr (Name ''abtem'') ''AnnularDetector'')
            [Kw ''inner'' (IntLit 60), Kw ''outer'' (IntLit 150)])],
      [Assign (Name ''image_prism'')
         (Call (Attr (Name ''S'') ''scan'')
            [Kw ''detectors'' (Name ''maadf_detector''),
             Kw ''max_batch_reduction'' (IntLit 50),
             Kw ''ctf'' (Name ''ctf'')])],
      [ExprStmt (Attr (Name ''image_prism'') ''array'')],
      [ExprStmt (Call (Attr (Name ''image_prism'') ''compute'') [])],
      [ExprStmt
         (Call
            (Attr
               (Call
                  (Attr
                     (Call (Attr (Name ''image_prism'') ''gaussian_filter'') [FloatLit ''0.35''])
                     ''interpolate'')
                  [FloatLit ''0.1''])
               ''show'')
            [Kw ''interact'' (BoolLit True)])],
      [Assign (Name ''exit_waves'')
         (Call (Attr (Name ''probe'') ''multislice'')
            [Kw ''potential'' (Name ''frozen_phonon_potential'')]),
       ExprStmt (Attr (Name ''exit_waves'') ''array'')],
      [Assign (Name ''exit_waves'')
         (Call (Attr (Name ''probe'') ''multislice'')
            [Kw ''potential'' (Name ''frozen_phonon_potential'')]),
       ExprStmt
         (Call (Attr (Name ''exit_waves'') ''compute'')
            [Kw ''scheduler'' (StrLit ''threads''), Kw ''num_workers'' (IntLit 2)])],
      [],
      [ImportFrom ''dask.distributed'' [''Client''],
       Assign (Name ''client'')
         (Call (Name ''Client'')
            [Kw ''n_workers'' (IntLit 4), Kw ''threads_per_worker'' (IntLit 1)]),
       ExprStmt (Name ''client'')],
      [Assign (Name ''exit_waves'')
         (Call (Attr (Name ''probe'') ''multislice'')
            [Kw ''potential'' (Name ''frozen_phonon_potential'')]),
       ExprStmt (Call (Attr (Name ''exit_waves'') ''compute'') [])]]"

text \<open>The fourth notebook, "Nanoparticle on amorphous carbon", which follows the supplement in
  the same source file (from line 1140) and builds the structure \<open>cluster_on_carbon.cfg\<close>
  that the supplement reads.\<close>

definition nanoparticle_on_carbon :: notebook where
  "nanoparticle_on_carbon =
     [[Magic ''matplotlib inline'',
       Import ''abtem'',
       Import ''ase'',
       ImportAs ''matplotlib.pyplot'' ''plt'',
       ImportAs ''numpy'' ''np'',
       ImportFrom ''ase.visualize'' [''view'']],
      [ImportFrom ''ase.build'' [''bulk''],
       Assign (Name ''carbon'')
         (Call (Name ''bulk'') [StrLit ''C'', Kw ''cubic'' (BoolLit True)]),
       AugAssign (Name ''carbon'') ''*'' (TupleE [IntLit 14, IntLit 14, IntLit 14]),
       AugAssign
         (Subscript (Attr (Name ''carbon'') ''positions'') (Slice Omitted Omitted Omitted))
         ''+''
         (BinOp
            (Call (Attr (Attr (Name ''np'') ''random'') ''randn'')
               [Call (Name ''len'') [Name ''carbon''], IntLit 3])
            ''*''
            (FloatLit ''0.5'')),
       ExprStmt (Call (Attr (Name ''carbon'') ''wrap'') []),
       ExprStmt (Call (Attr (Name ''abtem'') ''show_atoms'') [Name ''carbon''])],
      [ImportFrom ''ase.cluster'' [''Decahedron''],
       Assign (Name ''cluster'')
         (Call (Name ''Decahedron'') [StrLit ''Cu'', IntLit 10, IntLit 2, IntLit 0]),
       ExprStmt (Call (Attr (Name ''cluster'') ''rotate'') [StrLit ''x'', IntLit 30]),
       ExprStmt (Call (Attr (Name ''abtem'') ''show_atoms'') [Name ''cluster''])],
      [Assign (Name ''center_height'') (IntLit 30),
       Assign (Name ''translated_cluster'') (Call (Attr (Name ''cluster'') ''copy'') []),
       ExprStmt
         (Call (Attr (Name ''translated_cluster'') ''translate'')
            [BinOp
               (BinOp (Call (Attr (Name ''np'') ''diag'') [Attr (Name ''carbon'') ''cell'']) ''/''
                  (IntLit 2))
               ''+''
               (TupleE [IntLit 0, IntLit 0, Name ''center_height''])])],
      [Assign (Name ''cluster_on_carbon'')
         (BinOp (Name ''carbon'') ''+'' (Name ''translated_cluster'')),
       ExprStmt
         (Call (Attr (Name ''abtem'') ''show_atoms'')
            [Name ''cluster_on_carbon'', Kw ''plane'' (StrLit ''xz'')])],
      [ExprStmt
         (Call (Attr (Name ''cluster_on_carbon'') ''center'')
            [Kw ''axis'' (IntLit 2), Kw ''vacuum'' (IntLit 4)])],
      [Assign (Name ''rotated'') (Call (Attr (Name ''cluster_on_carbon'') ''copy'') []),
       ExprStmt
         (Call (Attr (Name ''rotated'') ''rotate'')
            [StrLit ''x'', IntLit 180, Kw ''rotate_cell'' (BoolLit True)])],
      [Assign (TupleE [Name ''fig'', TupleE [Name ''ax1'', Name ''ax2'']])
         (Call (Attr (Name ''plt'') ''subplots'')
            [IntLit 1, IntLit 2, Kw ''figsize'' (TupleE [IntLit 10, IntLit 4])]),
       ExprStmt
         (Call (Attr (Name ''abtem'') ''show_atoms'')
            [Name ''rotated'', Kw ''plane'' (StrLit ''yx''), Kw ''ax'' (Name ''ax1'')]),
       ExprStmt
         (Call (Attr (Name ''abtem'') ''show_atoms'')
            [Name ''cluster_on_carbon'',
             Kw ''plane'' (StrLit ''xz''),
             Kw ''ax'' (Name ''ax2'')])],
      [Assign (Name ''potential'')
         (Call (Attr (Name ''abtem'') ''Potential'')
            [Name ''cluster_on_carbon'', Kw ''sampling'' (FloatLit ''.05'')])],
      [Assign (Name ''projected'')
         (Call
            (Attr (Call (Attr (Call (Attr (Name ''potential'') ''build'') []) ''to_images'') [])
               ''compute'')
            [])],
      [Assign (TupleE [Name ''fig'', Name ''ax'']) (Call (Attr (Name ''plt'') ''subplots'') []),
       Assign (Name ''visualization'')
         (Call (Attr (Name ''projected'') ''show'')
            [Kw ''ax'' (Name ''ax''), Kw ''display'' (BoolLit False)]),
       ExprStmt (Call (Attr (Name ''visualization'') ''axis_off'') []),
       ExprStmt (Call (Attr (Name ''visualization'') ''adjust_tight_bbox'') []),
       Assign (Name ''animation'')
         (Call (Attr (Name ''visualization'') ''animate'') [Kw ''interval'' (IntLit 100)]),
       ExprStmt
         (Call (Attr (Name ''animation'') ''save'')
            [StrLit ''../intro_multislice/potential.gif'', Kw ''writer'' (StrLit ''pillow'')])],
      [ExprStmt
         (Call (Name ''write'') [StrLit ''cluster_on_carbon.cfg'', Name ''cluster_on_carbon''])]]"

section \<open>What a notebook's code contains\<close>

text \<open>All expressions below an expression (itself first), and all expressions of a
  statement, the bodies of compound statements included.\<close>

fun subexprs :: "expr \<Rightarrow> expr list" where
  "subexprs (Attr e a) = Attr e a # subexprs e"
| "subexprs (Call f args) = Call f args # subexprs f @ concat (map subexprs args)"
| "subexprs (Kw k e) = Kw k e # subexprs e"
| "subexprs (Starred e) = Starred e # subexprs e"
| "subexprs (TupleE es) = TupleE es # concat (map subexprs es)"
| "subexprs (ListE es) = ListE es # concat (map subexprs es)"
| "subexprs (DictE es) = DictE es # concat (map subexprs es)"
| "subexprs (KeyValue k v) = KeyValue k v # subexprs k @ subexprs v"
| "subexprs (Subscript e i) = Subscript e i # subexprs e @ subexprs i"
| "subexprs (Slice a b c) = Slice a b c # subexprs a @ subexprs b @ subexprs c"
| "subexprs (BinOp l ope r) = BinOp l ope r # subexprs l @ subexprs r"
| "subexprs (Compare l ope r) = Compare l ope r # subexprs l @ subexprs r"
| "subexprs (UnaryOp ope e) = UnaryOp ope e # subexprs e"
| "subexprs (JoinedStr es) = JoinedStr es # concat (map subexprs es)"
| "subexprs (FormattedValue e spec) = FormattedValue e spec # subexprs e"
| "subexprs (Lambda ps e) = Lambda ps e # subexprs e"
| "subexprs (IfExp c a b) = IfExp c a b # subexprs c @ subexprs a @ subexprs b"
| "subexprs (ListComp e x it) = ListComp e x it # subexprs e @ subexprs x @ subexprs it"
| "subexprs e = [e]"

fun stmt_exprs :: "stmt \<Rightarrow> expr list" where
  "stmt_exprs (Magic m) = []"
| "stmt_exprs (Help e) = subexprs e"
| "stmt_exprs (Import m) = []"
| "stmt_exprs (ImportAs m a) = []"
| "stmt_exprs (ImportFrom m ns) = []"
| "stmt_exprs (Assign t e) = subexprs t @ subexprs e"
| "stmt_exprs (AugAssign t ope e) = subexprs t @ subexprs e"
| "stmt_exprs (ExprStmt e) = subexprs e"
| "stmt_exprs (FunctionDef f ps body) = concat (map stmt_exprs body)"
| "stmt_exprs (ClassDef c bases body) = concat (map subexprs bases) @ concat (map stmt_exprs body)"
| "stmt_exprs (For x it body) = subexprs x @ subexprs it @ concat (map stmt_exprs body)"
| "stmt_exprs (While c body) = subexprs c @ concat (map stmt_exprs body)"
| "stmt_exprs (If c a b) = subexprs c @ concat (map stmt_exprs a) @ concat (map stmt_exprs b)"
| "stmt_exprs (Try body handlers) = concat (map stmt_exprs body) @ concat (map stmt_exprs handlers)"
| "stmt_exprs (Raise e) = subexprs e"
| "stmt_exprs (With e body) = subexprs e @ concat (map stmt_exprs body)"

definition exprs_of :: "notebook \<Rightarrow> expr list" where
  "exprs_of nb = concat (map stmt_exprs (stmts nb))"

text \<open>The callables a statement defines, by name (a lambda has none of its own), and the
  control-flow and error-handling constructs it contains, by keyword.\<close>

fun expr_keyword :: "expr \<Rightarrow> string list" where
  "expr_keyword (Lambda ps e) = [''lambda'']"
| "expr_keyword (IfExp c a b) = [''if'']"
| "expr_keyword (ListComp e x it) = [''for'']"
| "expr_keyword e = []"

fun definitions_in :: "stmt \<Rightarrow> string list" where
  "definitions_in (FunctionDef f ps body) = f # concat (map definitions_in body)"
| "definitions_in (ClassDef c bases body) = c # concat (map definitions_in body)"
| "definitions_in (For x it body) = concat (map definitions_in body)"
| "definitions_in (While c body) = concat (map definitions_in body)"
| "definitions_in (If c a b) = concat (map definitions_in a) @ concat (map definitions_in b)"
| "definitions_in (Try body handlers) =
     concat (map definitions_in body) @ concat (map definitions_in handlers)"
| "definitions_in (With e body) = concat (map definitions_in body)"
| "definitions_in s = []"

fun control_flow_in :: "stmt \<Rightarrow> string list" where
  "control_flow_in (FunctionDef f ps body) = ''def'' # concat (map control_flow_in body)"
| "control_flow_in (ClassDef c bases body) = ''class'' # concat (map control_flow_in body)"
| "control_flow_in (For x it body) = ''for'' # concat (map control_flow_in body)"
| "control_flow_in (While c body) = ''while'' # concat (map control_flow_in body)"
| "control_flow_in (If c a b) =
     ''if'' # concat (map control_flow_in a) @ concat (map control_flow_in b)"
| "control_flow_in (Try body handlers) =
     ''try'' # concat (map control_flow_in body) @ concat (map control_flow_in handlers)"
| "control_flow_in (Raise e) = [''raise'']"
| "control_flow_in (With e body) = ''with'' # concat (map control_flow_in body)"
| "control_flow_in s = []"

definition definitions_of :: "notebook \<Rightarrow> string list" where
  "definitions_of nb =
     concat (map definitions_in (stmts nb)) @
     filter (\<lambda>k. k = ''lambda'') (concat (map expr_keyword (exprs_of nb)))"

definition control_flow_of :: "notebook \<Rightarrow> string list" where
  "control_flow_of nb =
     concat (map control_flow_in (stmts nb)) @ concat (map expr_keyword (exprs_of nb))"

text \<open>The calls of a notebook: callee and arguments of every call expression, in the
  order of the source.\<close>

fun call_of :: "expr \<Rightarrow> (expr \<times> expr list) list" where
  "call_of (Call f args) = [(f, args)]"
| "call_of e = []"

definition calls_of :: "notebook \<Rightarrow> (expr \<times> expr list) list" where
  "calls_of nb = concat (map call_of (exprs_of nb))"


text \<open>The simulation methods the notebooks call, with the expression each is called on.\<close>

definition simulation_methods :: "string list" where
  "simulation_methods = [''multislice'', ''scan'', ''build'']"

fun sim_call :: "expr \<Rightarrow> (expr \<times> string) list" where
  "sim_call (Call (Attr r m) args) = (if m \<in> set simulation_methods then [(r, m)] else [])"
| "sim_call e = []"

definition sim_calls_of :: "notebook \<Rightarrow> (expr \<times> string) list" where
  "sim_calls_of nb = concat (map sim_call (exprs_of nb))"

text \<open>Where a value comes from. The root of an expression is the name at the start of its
  chain of attribute reads, calls and subscripts. A name is known to come from a library
  when an import binds it, or an assignment binds it to an expression whose root is such a
  name; any other assignment to the name ends that.\<close>

fun root :: "expr \<Rightarrow> string list" where
  "root (Name x) = [x]"
| "root (Attr e a) = root e"
| "root (Call f args) = root f"
| "root (Subscript e i) = root e"
| "root e = []"

definition module_root :: "string \<Rightarrow> string" where
  "module_root m = takeWhile (\<lambda>c. c \<noteq> CHR ''.'') m"

fun target_names :: "expr \<Rightarrow> string list" where
  "target_names (Name x) = [x]"
| "target_names (TupleE ts) = concat (map target_names ts)"
| "target_names t = []"

definition from_library :: "string list \<Rightarrow> expr \<Rightarrow> bool" where
  "from_library L e = (case root e of [r] \<Rightarrow> r \<in> set L | _ \<Rightarrow> False)"

fun library_step :: "string list \<Rightarrow> stmt \<Rightarrow> string list" where
  "library_step L (Import m) = module_root m # L"
| "library_step L (ImportAs m a) = a # L"
| "library_step L (ImportFrom m ns) = ns @ L"
| "library_step L (Assign t e) =
     (if from_library L e then target_names t @ L
      else filter (\<lambda>x. \<not> List.member (target_names t) x) L)"
| "library_step L s = L"

fun delegated :: "string list \<Rightarrow> stmt list \<Rightarrow> bool" where
  "delegated L [] = True"
| "delegated L (s # ss) =
     (list_all (from_library L) (map fst (concat (map sim_call (stmt_exprs s)))) \<and>
      delegated (library_step L s) ss)"

text \<open>Structure files. The notebooks read structures with \<open>ase.io.read\<close> (also imported as
  \<open>read\<close>) and write them with \<open>write\<close> (imported from \<open>ase.io\<close>); the file format is chosen
  by the file name's extension unless a \<open>format\<close> keyword says otherwise.\<close>

definition ase_io :: "string \<Rightarrow> expr" where
  "ase_io f = Attr (Attr (Name ''ase'') ''io'') f"

fun structure_io :: "expr \<times> expr list \<Rightarrow> (string \<times> expr list) list" where
  "structure_io (f, args) =
     (if f = Name ''read'' \<or> f = ase_io ''read'' then [(''read'', args)]
      else if f = Name ''write'' \<or> f = ase_io ''write'' then [(''write'', args)]
      else [])"

fun literal_path :: "expr list \<Rightarrow> string list" where
  "literal_path (StrLit p # args) = [p]"
| "literal_path args = []"

fun kw_name :: "expr \<Rightarrow> string list" where
  "kw_name (Kw k e) = [k]"
| "kw_name e = []"

definition structure_files :: "notebook \<Rightarrow> (string \<times> string) list" where
  "structure_files nb =
     concat (map (\<lambda>(kind, args). map (Pair kind) (literal_path args))
       (concat (map structure_io (calls_of nb))))"

definition structure_keywords :: "notebook \<Rightarrow> string list" where
  "structure_keywords nb =
     concat (map (\<lambda>(kind, args). concat (map kw_name args))
       (concat (map structure_io (calls_of nb))))"

definition extension :: "string \<Rightarrow> string" where
  "extension p = rev (takeWhile (\<lambda>c. c \<noteq> CHR ''.'') (rev p))"

section \<open>Running a notebook\<close>

text \<open>
  Run from a fresh kernel, cell after cell, a notebook is a sequence of primitive actions:
  reading a name, binding a name, and operations whose outcome the environment decides
  (importing a module, calling a library function, reading an attribute of a library
  object, indexing it, applying an operator, unpacking or formatting a value). Python
  evaluates the callee before the arguments and the arguments from left to right, the right
  side of an assignment before its target. A call that returns may have written a file
  that the notebook's code names: \<open>write(path, ...)\<close> of \<open>ase.io\<close>, \<open>x.to_zarr(path)\<close> and
  \<open>x.save(path, ...)\<close> do. Only these files are recorded by the actions; the files that a
  library leaves on its own account belong to the environment (see \<open>files_after\<close>).
\<close>

datatype action = Load string | Store string | Op | WriteFile string | Unsupported

definition written_path :: "expr \<Rightarrow> expr list \<Rightarrow> string list" where
  "written_path f args =
     (if f = Name ''write'' \<or> f = ase_io ''write'' then literal_path args
      else case f of
             Attr e m \<Rightarrow> if m = ''to_zarr'' \<or> m = ''save'' then literal_path args else []
           | _ \<Rightarrow> [])"

fun expr_actions :: "expr \<Rightarrow> action list" where
  "expr_actions (Name x) = [Load x]"
| "expr_actions (IntLit n) = []"
| "expr_actions (FloatLit x) = []"
| "expr_actions (StrLit x) = []"
| "expr_actions (BoolLit b) = []"
| "expr_actions Omitted = []"
| "expr_actions (Attr e a) = expr_actions e @ [Op]"
| "expr_actions (Call f args) =
     expr_actions f @ concat (map expr_actions args) @ [Op] @ map WriteFile (written_path f args)"
| "expr_actions (Kw k e) = expr_actions e"
| "expr_actions (Starred e) = expr_actions e @ [Op]"
| "expr_actions (TupleE es) = concat (map expr_actions es)"
| "expr_actions (ListE es) = concat (map expr_actions es)"
| "expr_actions (DictE es) = concat (map expr_actions es)"
| "expr_actions (KeyValue k v) = expr_actions k @ expr_actions v"
| "expr_actions (Subscript e i) = expr_actions e @ expr_actions i @ [Op]"
| "expr_actions (Slice a b c) = expr_actions a @ expr_actions b @ expr_actions c"
| "expr_actions (BinOp l ope r) = expr_actions l @ expr_actions r @ [Op]"
| "expr_actions (Compare l ope r) = expr_actions l @ expr_actions r @ [Op]"
| "expr_actions (UnaryOp ope e) = expr_actions e @ [Op]"
| "expr_actions (JoinedStr es) = concat (map expr_actions es)"
| "expr_actions (FormattedValue e spec) = expr_actions e @ [Op]"
| "expr_actions (Lambda ps e) = [Unsupported]"
| "expr_actions (IfExp c a b) = [Unsupported]"
| "expr_actions (ListComp e x it) = [Unsupported]"

text \<open>Storing into a target: a name is bound; a tuple target unpacks the value and stores
  its parts; an attribute or an item of an object is set by the object.\<close>

fun target_actions :: "expr \<Rightarrow> action list" where
  "target_actions (Name x) = [Store x]"
| "target_actions (TupleE ts) = Op # concat (map target_actions ts)"
| "target_actions (Attr e a) = expr_actions e @ [Op]"
| "target_actions (Subscript e i) = expr_actions e @ expr_actions i @ [Op]"
| "target_actions t = [Unsupported]"

text \<open>An augmented assignment reads its target, evaluates the right side, applies the
  operator and stores the result in the target, whose object and index are evaluated once.\<close>

fun aug_actions :: "expr \<Rightarrow> expr \<Rightarrow> action list" where
  "aug_actions (Name x) e = [Load x] @ expr_actions e @ [Op, Store x]"
| "aug_actions (Attr o1 a) e = expr_actions o1 @ [Op] @ expr_actions e @ [Op, Op]"
| "aug_actions (Subscript o1 i) e =
     expr_actions o1 @ expr_actions i @ [Op] @ expr_actions e @ [Op, Op]"
| "aug_actions t e = [Unsupported]"

fun stmt_actions :: "stmt \<Rightarrow> action list" where
  "stmt_actions (Magic m) = [Op]"
| "stmt_actions (Help e) = expr_actions e @ [Op]"
| "stmt_actions (Import m) = [Op, Store (module_root m)]"
| "stmt_actions (ImportAs m a) = [Op, Store a]"
| "stmt_actions (ImportFrom m ns) = Op # map Store ns"
| "stmt_actions (Assign t e) = expr_actions e @ target_actions t"
| "stmt_actions (AugAssign t ope e) = aug_actions t e"
| "stmt_actions (ExprStmt e) = expr_actions e"
| "stmt_actions s = [Unsupported]"

definition notebook_actions :: "notebook \<Rightarrow> action list" where
  "notebook_actions nb = concat (map stmt_actions (stmts nb))"

text \<open>The names Python resolves without a binding: its built-in functions.\<close>

definition builtins :: "string list" where
  "builtins = [''abs'', ''aiter'', ''all'', ''anext'', ''any'', ''ascii'', ''bin'', ''bool'',
     ''breakpoint'', ''bytearray'', ''bytes'', ''callable'', ''chr'', ''classmethod'',
     ''compile'', ''complex'', ''delattr'', ''dict'', ''dir'', ''divmod'', ''enumerate'',
     ''eval'', ''exec'', ''filter'', ''float'', ''format'', ''frozenset'', ''getattr'',
     ''globals'', ''hasattr'', ''hash'', ''help'', ''hex'', ''id'', ''input'', ''int'',
     ''isinstance'', ''issubclass'', ''iter'', ''len'', ''list'', ''locals'', ''map'', ''max'',
     ''memoryview'', ''min'', ''next'', ''object'', ''oct'', ''open'', ''ord'', ''pow'',
     ''print'', ''property'', ''range'', ''repr'', ''reversed'', ''round'', ''set'',
     ''setattr'', ''slice'', ''sorted'', ''staticmethod'', ''str'', ''sum'', ''super'',
     ''tuple'', ''type'', ''vars'', ''zip'', ''__import__'']"

text \<open>What ends a run early: a name that is not bound (Python's NameError), an exception
  raised by an operation of the environment, or code that is no straight line.\<close>

datatype 'x raised = Unbound string | Library 'x | NotStraightLine

record run_state =
  bound :: "string list"
  written :: "string list"
  ops :: nat
  steps :: nat

definition start :: run_state where
  "start = \<lparr>bound = [], written = [], ops = 0, steps = 0\<rparr>"

text \<open>The environment is an oracle: it tells, for the n-th operation of the run, whether it
  raises and what. No statement of a straight-line notebook catches an exception, so the
  first one raised ends the run.\<close>

fun exec :: "(nat \<Rightarrow> 'x option) \<Rightarrow> action list \<Rightarrow> run_state \<Rightarrow> 'x raised option \<times> run_state" where
  "exec env [] s = (None, s)"
| "exec env (Load x # acts) s =
     (if x \<in> set (bound s) \<or> x \<in> set builtins
      then exec env acts (s\<lparr>steps := Suc (steps s)\<rparr>)
      else (Some (Unbound x), s\<lparr>steps := Suc (steps s)\<rparr>))"
| "exec env (Store x # acts) s =
     exec env acts (s\<lparr>bound := x # bound s, steps := Suc (steps s)\<rparr>)"
| "exec env (Op # acts) s =
     (case env (ops s) of
        Some e \<Rightarrow> (Some (Library e), s\<lparr>ops := Suc (ops s), steps := Suc (steps s)\<rparr>)
      | None \<Rightarrow> exec env acts (s\<lparr>ops := Suc (ops s), steps := Suc (steps s)\<rparr>))"
| "exec env (WriteFile p # acts) s = exec env acts (s\<lparr>written := written s @ [p]\<rparr>)"
| "exec env (Unsupported # acts) s = (Some NotStraightLine, s)"

definition run :: "(nat \<Rightarrow> 'x option) \<Rightarrow> notebook \<Rightarrow> 'x raised option \<times> run_state" where
  "run env nb = exec env (notebook_actions nb) start"

text \<open>The environment in which no operation raises.\<close>

definition all_succeed :: "nat \<Rightarrow> string option" where
  "all_succeed n = None"

text \<open>The files on disk after a run. Besides the files named by the notebook's own calls
  (the field \<open>written\<close>), any operation of a library may leave files of its own: the
  scratch directory that the distributed scheduler creates when its client is constructed,
  a cache, a log. Which ones is the environment's matter: \<open>side n\<close> lists the files that the
  n-th operation of the run leaves on its own account.\<close>

definition files_after :: "(nat \<Rightarrow> string list) \<Rightarrow> run_state \<Rightarrow> string list" where
  "files_after side s = written s @ concat (map side [0..<ops s])"

section \<open>The substitution cell: what changes and what does not\<close>

lemma sr_to_la_cell_result:
  assumes v: "vars k ''repeated_srtio3'' = Some (Ref a)" and a: "a < length (heap k)"
    and len: "length (positions (heap k ! a)) = length (numbers (heap k ! a))"
  shows "sr_to_la_cell k =
     Inr (k\<lparr>vars := (vars k)(''sto_lto'' \<mapsto> Ref (length (heap k)),
                 ''mask'' \<mapsto> BoolArr (map2 (\<and>) (map (\<lambda>n. n = 38) (numbers (heap k ! a)))
                                     (map (\<lambda>p. fst (snd p) < 7.5) (positions (heap k ! a))))),
           heap := heap k @ [(heap k ! a)\<lparr>numbers :=
                     map2 (\<lambda>b n. if b then 57 else n)
                       (map2 (\<and>) (map (\<lambda>n. n = 38) (numbers (heap k ! a)))
                                     (map (\<lambda>p. fst (snd p) < 7.5) (positions (heap k ! a))))
                       (numbers (heap k ! a))\<rparr>]\<rparr>)"
  using v a len
  by (simp add: sr_to_la_cell_def then_do_def copy_stmt_def symbols_eq_stmt_def get_atoms_def
      mask_y_stmt_def mul_mask_def set_numbers_stmt_def nth_append)

text \<open>
  C8. Let \<open>repeated_srtio3\<close> refer to a structure with one position per atom. Then the
  cell succeeds; \<open>sto_lto\<close> refers to a new object; in it, exactly the atoms with atomic
  number 38 (the number the symbol Sr stands for) and y coordinate strictly below 7.5 have
  atomic number 57, and every other atom keeps its number; positions and cell of the new
  object are those of the source; every object that existed before the cell, the one
  \<open>repeated_srtio3\<close> refers to among them, is unchanged, and \<open>repeated_srtio3\<close> still
  refers to it.
\<close>

theorem sr_to_la_substitution:
  assumes v: "vars k ''repeated_srtio3'' = Some (Ref a)" and a: "a < length (heap k)"
    and len: "length (positions (heap k ! a)) = length (numbers (heap k ! a))"
  shows "\<exists>k'. sr_to_la_cell k = Inr k' \<and>
      atomic_numbers ''Sr'' = Some 38 \<and>
      vars k' ''sto_lto'' = Some (Ref (length (heap k))) \<and>
      vars k' ''repeated_srtio3'' = Some (Ref a) \<and>
      length (heap k') = Suc (length (heap k)) \<and>
      (\<forall>b < length (heap k). heap k' ! b = heap k ! b) \<and>
      positions (heap k' ! length (heap k)) = positions (heap k ! a) \<and>
      cell (heap k' ! length (heap k)) = cell (heap k ! a) \<and>
      length (numbers (heap k' ! length (heap k))) = length (numbers (heap k ! a)) \<and>
      (\<forall>i < length (numbers (heap k ! a)).
          numbers (heap k' ! length (heap k)) ! i =
            (if numbers (heap k ! a) ! i = 38 \<and> fst (snd (positions (heap k ! a) ! i)) < 7.5
             then 57 else numbers (heap k ! a) ! i))"
  using a len
  by (simp add: sr_to_la_cell_result [OF v a len] v nth_append)

theorem sr_to_la_substitution_witness:
  "vars demo_kernel ''repeated_srtio3'' = Some (Ref 0) \<and> 0 < length (heap demo_kernel) \<and>
   length (positions (heap demo_kernel ! 0)) = length (numbers (heap demo_kernel ! 0)) \<and>
   (\<exists>k'. sr_to_la_cell demo_kernel = Inr k' \<and>
      numbers (heap k' ! 1) = [57, 22, 38, 38] \<and> heap k' ! 0 = demo_atoms \<and>
      positions (heap k' ! 1) = positions demo_atoms \<and> cell (heap k' ! 1) = cell demo_atoms)"
proof -
  have v: "vars demo_kernel ''repeated_srtio3'' = Some (Ref 0)"
    by (simp add: demo_kernel_def)
  have a: "0 < length (heap demo_kernel)"
    by (simp add: demo_kernel_def)
  have len: "length (positions (heap demo_kernel ! 0)) = length (numbers (heap demo_kernel ! 0))"
    by (simp add: demo_kernel_def demo_atoms_def)
  from sr_to_la_substitution [OF v a len] obtain k' where
    r: "sr_to_la_cell demo_kernel = Inr k'" and
    old: "\<forall>b < length (heap demo_kernel). heap k' ! b = heap demo_kernel ! b" and
    pos: "positions (heap k' ! length (heap demo_kernel)) = positions (heap demo_kernel ! 0)" and
    cel: "cell (heap k' ! length (heap demo_kernel)) = cell (heap demo_kernel ! 0)" and
    n: "length (numbers (heap k' ! length (heap demo_kernel))) =
        length (numbers (heap demo_kernel ! 0))" and
    nums: "\<forall>i < length (numbers (heap demo_kernel ! 0)).
          numbers (heap k' ! length (heap demo_kernel)) ! i =
            (if numbers (heap demo_kernel ! 0) ! i = 38 \<and>
                fst (snd (positions (heap demo_kernel ! 0) ! i)) < 7.5
             then 57 else numbers (heap demo_kernel ! 0) ! i)"
    by blast
  have h: "heap demo_kernel = [demo_atoms]" by (simp add: demo_kernel_def)
  have n4: "length (numbers (heap k' ! 1)) = 4" using n by (simp add: h demo_atoms_def)
  have "numbers (heap k' ! 1) ! 0 = 57" "numbers (heap k' ! 1) ! 1 = 22"
       "numbers (heap k' ! 1) ! 2 = 38" "numbers (heap k' ! 1) ! 3 = 38"
    using nums by (simp_all add: h demo_atoms_def)
  then have "numbers (heap k' ! 1) = [57, 22, 38, 38]"
    using n4 by (intro nth_equalityI) (auto simp: less_Suc_eq numeral_eq_Suc)
  moreover have "heap k' ! 0 = demo_atoms" using old by (simp add: h)
  moreover have "positions (heap k' ! 1) = positions demo_atoms" using pos by (simp add: h)
  moreover have "cell (heap k' ! 1) = cell demo_atoms" using cel by (simp add: h)
  ultimately show ?thesis using v a len r by blast
qed

section \<open>Properties of every run\<close>

text \<open>Whatever the environment does: a run takes no more steps than there are actions, an
  exception of the environment that ends the run is one the environment raised, and a run
  of actions without an unsupported construct never ends for that reason.\<close>

lemma exec_steps_le: "steps (snd (exec env acts s)) \<le> steps s + length acts"
  by (induction env acts s rule: exec.induct) (auto split: option.splits)

lemma exec_library: "fst (exec env acts s) = Some (Library e) \<Longrightarrow> \<exists>n. env n = Some e"
  by (induction env acts s rule: exec.induct) (auto split: option.splits if_splits)

lemma exec_supported:
  "List.member acts Unsupported = False \<Longrightarrow> fst (exec env acts s) \<noteq> Some NotStraightLine"
  by (induction env acts s rule: exec.induct) (auto split: option.splits if_splits)

lemma run_steps_le: "steps (snd (run env nb)) \<le> length (notebook_actions nb)"
  using exec_steps_le [of env "notebook_actions nb" start] by (simp add: run_def start_def)

lemma run_supported:
  "List.member (notebook_actions nb) Unsupported = False \<Longrightarrow>
   fst (run env nb) \<noteq> Some NotStraightLine"
  by (simp add: run_def exec_supported)

lemma run_library: "fst (run env nb) = Some (Library e) \<Longrightarrow> \<exists>n. env n = Some e"
  by (auto simp: run_def dest: exec_library)

section \<open>The simulation is delegated\<close>

text \<open>
  C1. No notebook defines a function, a class or a lambda. The simulation methods called
  are \<open>build\<close>, \<open>multislice\<close> and \<open>scan\<close>, each on a variable (\<open>potential\<close>, \<open>probe\<close>,
  \<open>focal_series_probe\<close>, \<open>plane_wave\<close>, \<open>frozen_phonon_potential\<close>, \<open>S\<close>), and at each such
  call the variable holds a value obtained from an imported library.
\<close>

theorem simulation_is_delegated:
  "definitions_of atomic_models_with_ase = [] \<and>
   definitions_of image_simulation_with_abtem = [] \<and>
   definitions_of image_simulation_with_abtem_supplement = [] \<and>
   definitions_of nanoparticle_on_carbon = [] \<and>
   sim_calls_of atomic_models_with_ase = [] \<and>
   sim_calls_of image_simulation_with_abtem =
     [(Name ''potential'', ''build''), (Name ''probe'', ''build''),
      (Name ''focal_series_probe'', ''build''), (Name ''focal_series_probe'', ''build''),
      (Name ''probe'', ''multislice''), (Name ''probe'', ''scan'')] \<and>
   sim_calls_of image_simulation_with_abtem_supplement =
     [(Name ''plane_wave'', ''multislice''), (Name ''probe'', ''scan''),
      (Name ''frozen_phonon_potential'', ''build''), (Name ''probe'', ''multislice''),
      (Name ''S'', ''build''), (Name ''S'', ''build''), (Name ''S'', ''scan''),
      (Name ''probe'', ''multislice''), (Name ''probe'', ''multislice''),
      (Name ''probe'', ''multislice'')] \<and>
   sim_calls_of nanoparticle_on_carbon = [(Name ''potential'', ''build'')] \<and>
   delegated [] (stmts atomic_models_with_ase) \<and>
   delegated [] (stmts image_simulation_with_abtem) \<and>
   delegated [] (stmts image_simulation_with_abtem_supplement) \<and>
   delegated [] (stmts nanoparticle_on_carbon)"
proof -
  have defs: "definitions_of atomic_models_with_ase = []"
    "definitions_of image_simulation_with_abtem = []"
    "definitions_of image_simulation_with_abtem_supplement = []"
    "definitions_of nanoparticle_on_carbon = []"
    by code_simp+
  have calls: "sim_calls_of atomic_models_with_ase = []"
    "sim_calls_of image_simulation_with_abtem =
     [(Name ''potential'', ''build''), (Name ''probe'', ''build''),
      (Name ''focal_series_probe'', ''build''), (Name ''focal_series_probe'', ''build''),
      (Name ''probe'', ''multislice''), (Name ''probe'', ''scan'')]"
    "sim_calls_of image_simulation_with_abtem_supplement =
     [(Name ''plane_wave'', ''multislice''), (Name ''probe'', ''scan''),
      (Name ''frozen_phonon_potential'', ''build''), (Name ''probe'', ''multislice''),
      (Name ''S'', ''build''), (Name ''S'', ''build''), (Name ''S'', ''scan''),
      (Name ''probe'', ''multislice''), (Name ''probe'', ''multislice''),
      (Name ''probe'', ''multislice'')]"
    "sim_calls_of nanoparticle_on_carbon = [(Name ''potential'', ''build'')]"
    by code_simp+
  have lib: "delegated [] (stmts atomic_models_with_ase)"
    "delegated [] (stmts image_simulation_with_abtem)"
    "delegated [] (stmts image_simulation_with_abtem_supplement)"
    "delegated [] (stmts nanoparticle_on_carbon)"
    by code_simp+
  from defs calls lib show ?thesis by blast
qed

section \<open>Straight-line code\<close>

text \<open>
  C3. No notebook contains a definition, a loop, a branch, a handler or a raise (nor a
  lambda, a conditional expression or a comprehension): each is a straight line of
  imports, assignments and expression statements. Whatever the environment does, a run
  never meets an unsupported construct and takes at most as many steps as the notebook has
  actions: 143, 269, 379 and 145. In the environment where no operation raises, the first
  three notebooks run all their steps.
\<close>

theorem notebooks_are_straight_line:
  "control_flow_of atomic_models_with_ase = [] \<and>
   control_flow_of image_simulation_with_abtem = [] \<and>
   control_flow_of image_simulation_with_abtem_supplement = [] \<and>
   control_flow_of nanoparticle_on_carbon = [] \<and>
   fst (run env atomic_models_with_ase) \<noteq> Some NotStraightLine \<and>
   fst (run env image_simulation_with_abtem) \<noteq> Some NotStraightLine \<and>
   fst (run env image_simulation_with_abtem_supplement) \<noteq> Some NotStraightLine \<and>
   fst (run env nanoparticle_on_carbon) \<noteq> Some NotStraightLine \<and>
   steps (snd (run env atomic_models_with_ase)) \<le> 143 \<and>
   steps (snd (run env image_simulation_with_abtem)) \<le> 269 \<and>
   steps (snd (run env image_simulation_with_abtem_supplement)) \<le> 379 \<and>
   steps (snd (run env nanoparticle_on_carbon)) \<le> 145 \<and>
   steps (snd (run all_succeed atomic_models_with_ase)) = 142 \<and>
   steps (snd (run all_succeed image_simulation_with_abtem)) = 269 \<and>
   steps (snd (run all_succeed image_simulation_with_abtem_supplement)) = 378"
proof -
  have flow: "control_flow_of atomic_models_with_ase = []"
    "control_flow_of image_simulation_with_abtem = []"
    "control_flow_of image_simulation_with_abtem_supplement = []"
    "control_flow_of nanoparticle_on_carbon = []"
    by code_simp+
  have sup: "List.member (notebook_actions atomic_models_with_ase) Unsupported = False"
    "List.member (notebook_actions image_simulation_with_abtem) Unsupported = False"
    "List.member (notebook_actions image_simulation_with_abtem_supplement) Unsupported = False"
    "List.member (notebook_actions nanoparticle_on_carbon) Unsupported = False"
    by code_simp+
  have len: "length (notebook_actions atomic_models_with_ase) = 143"
    "length (notebook_actions image_simulation_with_abtem) = 269"
    "length (notebook_actions image_simulation_with_abtem_supplement) = 379"
    "length (notebook_actions nanoparticle_on_carbon) = 145"
    by code_simp+
  have full: "steps (snd (run all_succeed atomic_models_with_ase)) = 142"
    "steps (snd (run all_succeed image_simulation_with_abtem)) = 269"
    "steps (snd (run all_succeed image_simulation_with_abtem_supplement)) = 378"
    by code_simp+
  have b1: "steps (snd (run env atomic_models_with_ase)) \<le> 143"
    using run_steps_le [of env atomic_models_with_ase] by (simp add: len)
  have b2: "steps (snd (run env image_simulation_with_abtem)) \<le> 269"
    using run_steps_le [of env image_simulation_with_abtem] by (simp add: len)
  have b3: "steps (snd (run env image_simulation_with_abtem_supplement)) \<le> 379"
    using run_steps_le [of env image_simulation_with_abtem_supplement] by (simp add: len)
  have b4: "steps (snd (run env nanoparticle_on_carbon)) \<le> 145"
    using run_steps_le [of env nanoparticle_on_carbon] by (simp add: len)
  from flow sup [THEN run_supported] b1 b2 b3 b4 full show ?thesis by blast
qed

section \<open>Files\<close>


text \<open>A file that an operation of the run leaves on its own account is on disk after the
  run, so the files after a run are not limited to those the notebook names.\<close>

lemma files_after_side: "n < ops s \<Longrightarrow> set (side n) \<subseteq> set (files_after side s)"
  by (auto simp: files_after_def)


text \<open>
  C4. The calls that read or write a structure file name, in the order of the source,
  \<open>srtio3.cif\<close> and \<open>sto_lto.cif\<close> (atomic models), \<open>sto_lto.cif\<close> (image simulation),
  \<open>sto_lto.cif\<close> twice and \<open>cluster_on_carbon.cfg\<close> (supplement), and
  \<open>cluster_on_carbon.cfg\<close> (nanoparticle). Every such call gives the file name as a string
  literal and none passes a keyword, so the extension decides the format: it is \<open>cif\<close> or
  \<open>cfg\<close> every time.
\<close>

theorem structure_files_are_cif_or_cfg:
  "structure_files atomic_models_with_ase
     = [(''read'', ''srtio3.cif''), (''write'', ''sto_lto.cif'')] \<and>
   structure_files image_simulation_with_abtem = [(''read'', ''sto_lto.cif'')] \<and>
   structure_files image_simulation_with_abtem_supplement
     = [(''read'', ''sto_lto.cif''), (''read'', ''sto_lto.cif''),
        (''read'', ''cluster_on_carbon.cfg'')] \<and>
   structure_files nanoparticle_on_carbon = [(''write'', ''cluster_on_carbon.cfg'')] \<and>
   map (\<lambda>nb. length (concat (map structure_io (calls_of nb))))
     [atomic_models_with_ase, image_simulation_with_abtem,
      image_simulation_with_abtem_supplement, nanoparticle_on_carbon] = [2, 1, 3, 1] \<and>
   concat (map structure_keywords
     [atomic_models_with_ase, image_simulation_with_abtem,
      image_simulation_with_abtem_supplement, nanoparticle_on_carbon]) = [] \<and>
   map extension [''srtio3.cif'', ''sto_lto.cif'', ''cluster_on_carbon.cfg'']
     = [''cif'', ''cif'', ''cfg'']"
  by (intro conjI; code_simp)

section \<open>Errors\<close>

text \<open>
  C6. The nanoparticle notebook ends with \<open>write("cluster_on_carbon.cfg", cluster_on_carbon)\<close>
  but never imports \<open>write\<close> (atomic_models_with_ase.ipynb does, before its own call).
  Run from a fresh kernel in the environment where no operation raises, it stops at that
  statement with an unbound name, after the animation has been saved; the three other
  notebooks run to their end in that environment.
\<close>

theorem nanoparticle_notebook_unbound_write:
  "fst (run all_succeed nanoparticle_on_carbon) = Some (Unbound ''write'') \<and>
   steps (snd (run all_succeed nanoparticle_on_carbon)) = 141 \<and>
   List.member (bound (snd (run all_succeed nanoparticle_on_carbon))) ''write'' = False \<and>
   fst (run all_succeed atomic_models_with_ase) = None \<and>
   fst (run all_succeed image_simulation_with_abtem) = None \<and>
   fst (run all_succeed image_simulation_with_abtem_supplement) = None"
  by (intro conjI; code_simp)

end
